theory Spec2Isabelle
  imports Complex_Main "HOL-Library.Multiset"
begin

section \<open>Configuration: business rules and the grade scale (config.py)\<close>

text \<open>
  Grades, credits and grade points are Python floats in the source. A float's value is
  a real number, and they are modelled as such: every comparison the code makes is
  against an integer constant and is exact, and the table's point values are used
  only as literals. Floating-point addition rounds; where the code adds floats (the
  credit total of the eligibility check) the addition is a parameter of the model,
  introduced with the read queries below.
\<close>

definition MIN_CREDITS_PER_SEMESTER :: real where
  "MIN_CREDITS_PER_SEMESTER = 10"

definition MAX_CREDITS_PER_SEMESTER :: real where
  "MAX_CREDITS_PER_SEMESTER = 40"

text \<open>
  \<^verbatim>\<open>GRADE_SCALE\<close> is a dict literal; iterating over \<^verbatim>\<open>items()\<close> visits the entries in
  the order they are written, so the table is an association list in that order.
\<close>

definition GRADE_SCALE :: "((real \<times> real) \<times> real) list" where
  "GRADE_SCALE =
     [((97, 100), 4),
      ((93, 96), 37 / 10),
      ((90, 92), 33 / 10),
      ((87, 89), 3),
      ((83, 86), 27 / 10),
      ((80, 82), 23 / 10),
      ((77, 79), 2),
      ((73, 76), 17 / 10),
      ((70, 72), 13 / 10),
      ((67, 69), 1),
      ((65, 66), 7 / 10),
      ((0, 64), 0)]"

text \<open>The \<^verbatim>\<open>for\<close> loop of \<^verbatim>\<open>calculate_grade_points\<close>: first matching entry, else 0.0.\<close>

fun scale_lookup :: "((real \<times> real) \<times> real) list \<Rightarrow> real \<Rightarrow> real" where
  "scale_lookup [] grade = 0"
| "scale_lookup (((min_grade, max_grade), points) # rest) grade =
     (if min_grade \<le> grade \<and> grade \<le> max_grade then points
      else scale_lookup rest grade)"

definition calculate_grade_points :: "real option \<Rightarrow> real option" where
  "calculate_grade_points grade =
     (case grade of
        None \<Rightarrow> None
      | Some g \<Rightarrow> Some (scale_lookup GRADE_SCALE g))"


section \<open>The relational store\<close>

text \<open>
  The tables the enrollment workflow reads and writes. The schema file is not part of
  the sources, so the columns are the ones the queries of dao.py name. Tables read by
  primary key (Student, Course, Section) are maps from the key; Enrollment is a list of
  rows. Columns that no modelled query result depends on (instructor, location,
  timestamps) are left out; the instructor is only ever LEFT JOINed.
  \<open>statements\<close> counts the data-modifying statements sent through
  \<^verbatim>\<open>execute_update\<close>.
\<close>

datatype EnrollmentStatus = ENROLLED | DROPPED | COMPLETED | FAILED

record Course_row =
  CourseName :: string
  Credits :: real

record Section_row =
  CourseID :: string
  Semester :: string
  Year :: int
  MaxCapacity :: int
  TimeSlot :: "string option"

record Enrollment_row =
  EnrollmentID :: int
  StudentID :: string
  SectionID :: int
  Status :: EnrollmentStatus
  FinalGrade :: "real option"
  GradePoints :: "real option"

record Database =
  Student_tbl :: "string \<rightharpoonup> string"
  Course_tbl :: "string \<rightharpoonup> Course_row"
  Section_tbl :: "int \<rightharpoonup> Section_row"
  Enrollment_tbl :: "Enrollment_row list"
  statements :: nat

text \<open>
  An UPDATE through \<^verbatim>\<open>execute_update\<close>: every row satisfying the WHERE clause is
  rewritten and the statement is committed. The returned \<^verbatim>\<open>rowcount\<close> is the store's
  affected-rows count, the number of rows the statement changed (a matched row that
  already holds the assigned values is not counted).
\<close>

definition execute_update ::
  "Database \<Rightarrow> (Enrollment_row \<Rightarrow> bool) \<Rightarrow> (Enrollment_row \<Rightarrow> Enrollment_row)
     \<Rightarrow> nat \<times> Database" where
  "execute_update db cond assign =
     (length (filter (\<lambda>e. cond e \<and> assign e \<noteq> e) (Enrollment_tbl db)),
      db\<lparr>Enrollment_tbl := map (\<lambda>e. if cond e then assign e else e) (Enrollment_tbl db),
         statements := Suc (statements db)\<rparr>)"


section \<open>Data access: grade posting and drop (dao.py, EnrollmentDAO)\<close>

definition update_grade :: "Database \<Rightarrow> int \<Rightarrow> real \<Rightarrow> bool \<times> Database" where
  "update_grade db enrollment_id final_grade =
     (let grade_points = calculate_grade_points (Some final_grade);
          (rows_affected, db') =
             execute_update db (\<lambda>e. EnrollmentID e = enrollment_id)
               (\<lambda>e. e\<lparr>FinalGrade := Some final_grade,
                      GradePoints := grade_points,
                      Status := (if final_grade \<ge> 60 then COMPLETED else FAILED)\<rparr>)
      in (rows_affected > 0, db'))"

definition drop_enrollment :: "Database \<Rightarrow> string \<Rightarrow> int \<Rightarrow> bool \<times> Database" where
  "drop_enrollment db student_id section_id =
     (let (rows_affected, db') =
             execute_update db
               (\<lambda>e. StudentID e = student_id \<and> SectionID e = section_id \<and> Status e = ENROLLED)
               (\<lambda>e. e\<lparr>Status := DROPPED\<rparr>)
      in (rows_affected > 0, db'))"


section \<open>Services for grade posting and drop (services.py)\<close>

text \<open>
  Both services wrap the DAO call in \<^verbatim>\<open>try\<close>; the \<^verbatim>\<open>except\<close> branch is reached only
  when the store raises, which the store modelled here does not do.
\<close>

definition update_student_grade ::
  "Database \<Rightarrow> int \<Rightarrow> real \<Rightarrow> (bool \<times> string) \<times> Database" where
  "update_student_grade db enrollment_id final_grade =
     (if \<not> (0 \<le> final_grade \<and> final_grade \<le> 100)
      then ((False, ''Grade must be between 0 and 100''), db)
      else (let (success, db') = update_grade db enrollment_id final_grade
            in if success then ((True, ''Grade updated successfully''), db')
               else ((False, ''Failed to update grade - enrollment not found''), db')))"

definition drop_course ::
  "Database \<Rightarrow> string \<Rightarrow> int \<Rightarrow> (bool \<times> string) \<times> Database" where
  "drop_course db student_id section_id =
     (let (success, db') = drop_enrollment db student_id section_id
      in if success then ((True, ''Course dropped successfully''), db')
         else ((False, ''Failed to drop course - enrollment not found or already dropped''), db'))"


section \<open>Query results (models.py) and the read queries (dao.py)\<close>

record SectionInfo =
  section_id :: int
  course_id :: string
  course_name :: string
  credits :: real
  semester :: string
  year :: int
  max_capacity :: int
  current_enrollment :: int
  available_spots :: int
  time_slot :: "string option"

record EnrollmentInfo =
  enrollment_id :: int
  student_id :: string
  student_name :: string
  course_id :: string
  course_name :: string
  credits :: real
  section_id :: int
  semester :: string
  year :: int
  time_slot :: "string option"
  status :: EnrollmentStatus
  final_grade :: "real option"
  grade_points :: "real option"

text \<open>
  The subquery \<^verbatim>\<open>SELECT SectionID, COUNT(*) ... WHERE Status = 'Enrolled' GROUP BY SectionID\<close>
  under \<^verbatim>\<open>COALESCE(..., 0)\<close>.
\<close>

definition CurrentCount :: "Database \<Rightarrow> int \<Rightarrow> int" where
  "CurrentCount db sid =
     int (length (filter (\<lambda>e. SectionID e = sid \<and> Status e = ENROLLED) (Enrollment_tbl db)))"

text \<open>
  \<^verbatim>\<open>SectionDAO.get_section_by_id\<close>: Section is inner-joined with Course, so a section
  whose course row is missing yields no result.
\<close>

definition get_section_by_id :: "Database \<Rightarrow> int \<Rightarrow> SectionInfo option" where
  "get_section_by_id db sid =
     (case Section_tbl db sid of
        None \<Rightarrow> None
      | Some sec \<Rightarrow>
          (case Course_tbl db (CourseID sec) of
             None \<Rightarrow> None
           | Some c \<Rightarrow>
               Some \<lparr>SectionInfo.section_id = sid,
                     course_id = CourseID sec,
                     course_name = CourseName c,
                     credits = Credits c,
                     semester = Semester sec,
                     year = Year sec,
                     max_capacity = MaxCapacity sec,
                     current_enrollment = CurrentCount db sid,
                     available_spots = MaxCapacity sec - CurrentCount db sid,
                     time_slot = TimeSlot sec\<rparr>))"

text \<open>Python truthiness of an optional string and of an optional int.\<close>

definition truthy_str :: "string option \<Rightarrow> bool" where
  "truthy_str v = (case v of None \<Rightarrow> False | Some s \<Rightarrow> s \<noteq> [])"

definition truthy_int :: "int option \<Rightarrow> bool" where
  "truthy_int v = (case v of None \<Rightarrow> False | Some n \<Rightarrow> n \<noteq> 0)"

definition truthy_real :: "real option \<Rightarrow> bool" where
  "truthy_real v = (case v of None \<Rightarrow> False | Some r \<Rightarrow> r \<noteq> 0)"

text \<open>
  One row of the join of \<^verbatim>\<open>get_student_enrollments\<close>: Enrollment with Student, Section
  and Course (all inner joins), filtered by student and, when both \<^verbatim>\<open>semester\<close> and
  \<^verbatim>\<open>year\<close> are truthy, by term.
\<close>

definition enrollment_info_row ::
  "Database \<Rightarrow> string \<Rightarrow> string option \<Rightarrow> int option \<Rightarrow> Enrollment_row \<Rightarrow> EnrollmentInfo option" where
  "enrollment_info_row db sid sem yr e =
     (if StudentID e \<noteq> sid then None
      else case Student_tbl db (StudentID e) of
        None \<Rightarrow> None
      | Some sname \<Rightarrow>
          (case Section_tbl db (SectionID e) of
             None \<Rightarrow> None
           | Some sec \<Rightarrow>
               (case Course_tbl db (CourseID sec) of
                  None \<Rightarrow> None
                | Some c \<Rightarrow>
                    if truthy_str sem \<and> truthy_int yr
                       \<and> \<not> (Some (Semester sec) = sem \<and> Some (Year sec) = yr)
                    then None
                    else Some \<lparr>enrollment_id = EnrollmentID e,
                               student_id = StudentID e,
                               student_name = sname,
                               course_id = CourseID sec,
                               course_name = CourseName c,
                               credits = Credits c,
                               section_id = SectionID e,
                               semester = Semester sec,
                               year = Year sec,
                               time_slot = TimeSlot sec,
                               status = Status e,
                               final_grade =
                                 (if truthy_real (FinalGrade e) then FinalGrade e else None),
                               grade_points =
                                 (if truthy_real (GradePoints e) then GradePoints e else None)\<rparr>)))"

text \<open>
  What the code takes from the interpreter and from the store, and what the sources
  therefore do not fix:
  \<^item> \<open>float_sum\<close>, the built-in \<^verbatim>\<open>sum\<close> applied to floats (it starts from 0 and
    rounds as the interpreter's summation does);
  \<^item> \<open>float_add\<close>, the \<^verbatim>\<open>+\<close> of two floats, which rounds;
  \<^item> \<open>order_by\<close>, the order in which the store hands back the rows selected by a
    query with an ORDER BY clause (the sort keys leave ties open).
  They are parameters of every definition that uses them, and the theorems hold for
  all their values.
\<close>

record Platform =
  float_sum :: "real list \<Rightarrow> real"
  float_add :: "real \<Rightarrow> real \<Rightarrow> real"
  order_by :: "EnrollmentInfo list \<Rightarrow> EnrollmentInfo list"

text \<open>
  \<^verbatim>\<open>EnrollmentDAO.get_student_enrollments\<close>: the joined rows of the student, in the
  order the store returns them.
\<close>

definition get_student_enrollments ::
  "Platform \<Rightarrow> Database \<Rightarrow> string \<Rightarrow> string option \<Rightarrow> int option
     \<Rightarrow> EnrollmentInfo list" where
  "get_student_enrollments pf db sid sem yr =
     order_by pf (List.map_filter (enrollment_info_row db sid sem yr) (Enrollment_tbl db))"


section \<open>The eligibility check (services.py, StudentService)\<close>

text \<open>The two \<^verbatim>\<open>for\<close> loops of \<^verbatim>\<open>validate_enrollment_eligibility\<close>.\<close>

fun time_conflict_loop :: "EnrollmentInfo list \<Rightarrow> SectionInfo \<Rightarrow> bool" where
  "time_conflict_loop [] sec = False"
| "time_conflict_loop (enrollment # rest) sec =
     (if status enrollment = ENROLLED
         \<and> truthy_str (time_slot enrollment) \<and> truthy_str (SectionInfo.time_slot sec)
         \<and> time_slot enrollment = SectionInfo.time_slot sec
      then True
      else time_conflict_loop rest sec)"

fun already_enrolled_loop :: "EnrollmentInfo list \<Rightarrow> int \<Rightarrow> bool" where
  "already_enrolled_loop [] sid = False"
| "already_enrolled_loop (enrollment # rest) sid =
     (if section_id enrollment = sid then True else already_enrolled_loop rest sid)"

text \<open>
  The values \<^verbatim>\<open>validate_enrollment_eligibility\<close> binds before its checks: the student's
  enrollments in the term of the target section, and the credits of those among them
  whose status is Enrolled.
\<close>

definition current_enrollments ::
  "Platform \<Rightarrow> Database \<Rightarrow> string \<Rightarrow> SectionInfo \<Rightarrow> EnrollmentInfo list" where
  "current_enrollments pf db sid sec =
     get_student_enrollments pf db sid
       (Some (SectionInfo.semester sec)) (Some (SectionInfo.year sec))"

definition current_credits :: "Platform \<Rightarrow> EnrollmentInfo list \<Rightarrow> real" where
  "current_credits pf es =
     float_sum pf (map credits (filter (\<lambda>e. status e = ENROLLED) es))"

text \<open>
  \<^verbatim>\<open>StudentService.validate_enrollment_eligibility\<close>. The \<^verbatim>\<open>except\<close> branch is reached
  only when a query raises; the store modelled here does not fail, so that branch has no
  counterpart.
\<close>

definition validate_enrollment_eligibility ::
  "Platform \<Rightarrow> Database \<Rightarrow> string \<Rightarrow> int \<Rightarrow> bool \<times> string list" where
  "validate_enrollment_eligibility pf db sid x =
     (case get_section_by_id db x of
        None \<Rightarrow> (False, [''Section not found''])
      | Some sec \<Rightarrow>
          if available_spots sec \<le> 0 then (False, [''Section is full''])
          else
            (let es = current_enrollments pf db sid sec;
                 new_total_credits =
                   float_add pf (current_credits pf es) (SectionInfo.credits sec)
             in if new_total_credits > MAX_CREDITS_PER_SEMESTER
                then (False, [''Exceeds maximum credit limit (40)''])
                else
                  (let warnings =
                         (if new_total_credits < MIN_CREDITS_PER_SEMESTER \<and> length es = 0
                          then [''Below minimum credit recommendation (10)'']
                          else [])
                   in if time_conflict_loop es sec
                      then (False, [''Time conflict with existing enrollment''])
                      else if already_enrolled_loop es x
                      then (False, [''Already enrolled in this section''])
                      else (True, warnings))))"


section \<open>Enrollment: the stored procedure and its callers\<close>

text \<open>
  Modelled from the spec: the student's current-term enrollments with status Enrolled,
  against which the allocation algorithm evaluates its eligibility check. Current-term
  means the semester and year of the target section. (Part of the stored procedure
  \<^verbatim>\<open>sp_EnrollStudent\<close>, whose SQL text is not among the sources.)
\<close>

definition current_term_enrolled ::
  "Database \<Rightarrow> string \<Rightarrow> Section_row \<Rightarrow> (Enrollment_row \<times> Section_row) list" where
  "current_term_enrolled db sid target =
     List.map_filter
       (\<lambda>e. if StudentID e = sid \<and> Status e = ENROLLED
            then (case Section_tbl db (SectionID e) of
                    None \<Rightarrow> None
                  | Some sec \<Rightarrow>
                      if Semester sec = Semester target \<and> Year sec = Year target
                      then Some (e, sec) else None)
            else None)
       (Enrollment_tbl db)"

text \<open>
  Modelled from the spec: the credit value of a section is that of its course (a
  section of no recorded course carries none).
\<close>

definition section_credits :: "Database \<Rightarrow> Section_row \<Rightarrow> real" where
  "section_credits db sec =
     (case Course_tbl db (CourseID sec) of None \<Rightarrow> 0 | Some c \<Rightarrow> Credits c)"

text \<open>
  Modelled from the spec: the stored procedure \<^verbatim>\<open>sp_EnrollStudent\<close>, called by
  \<^verbatim>\<open>EnrollmentDAO.enroll_student\<close>; its SQL text is not among the sources. It is the
  allocation algorithm of the spec, run as one atomic unit: the eligibility check
  (the section exists and has \<open>available_spots = capacity - enrolled_count > 0\<close>, else
  SectionFull; the credit sum must not exceed 40, else CreditLimitExceeded; no
  current-term Enrolled section shares the target's time-slot string, else TimeConflict;
  no Enrolled row for this exact section, else AlreadyEnrolled), then the commit, which
  re-validates capacity and inserts the row with status Enrolled. It returns the
  message and the success flag. The row's timestamp is not modelled; the new row gets
  an identifier larger than every existing one.
\<close>

definition sp_EnrollStudent ::
  "Database \<Rightarrow> string \<Rightarrow> int \<Rightarrow> (string \<times> bool) \<times> Database" where
  "sp_EnrollStudent db sid x =
     (case Section_tbl db x of
        None \<Rightarrow> ((''SectionFull'', False), db)
      | Some target \<Rightarrow>
          if \<not> (MaxCapacity target - CurrentCount db x > 0)
          then ((''SectionFull'', False), db)
          else
            (let held = current_term_enrolled db sid target
             in if sum_list (map (\<lambda>(e, sec). section_credits db sec) held)
                     + section_credits db target > MAX_CREDITS_PER_SEMESTER
                then ((''CreditLimitExceeded'', False), db)
                else if list_ex (\<lambda>(e, sec). TimeSlot sec \<noteq> None
                                    \<and> TimeSlot sec = TimeSlot target) held
                then ((''TimeConflict'', False), db)
                else if list_ex (\<lambda>(e, sec). SectionID e = x) held
                then ((''AlreadyEnrolled'', False), db)
                else if \<not> (MaxCapacity target - CurrentCount db x > 0)
                then ((''SectionFull'', False), db)
                else ((''Enrolled'', True),
                      db\<lparr>Enrollment_tbl := Enrollment_tbl db @
                           [\<lparr>EnrollmentID = fold max (map EnrollmentID (Enrollment_tbl db)) 0 + 1,
                             StudentID = sid,
                             SectionID = x,
                             Status = ENROLLED,
                             FinalGrade = None,
                             GradePoints = None\<rparr>]\<rparr>)))"

text \<open>
  \<^verbatim>\<open>EnrollmentDAO.enroll_student\<close>: the CALL goes through \<^verbatim>\<open>execute_update\<close>, then the
  two output parameters are read back; an empty message becomes "Unknown error". The
  \<^verbatim>\<open>except\<close> branch handles an error raised by the store and has no counterpart here.
\<close>

definition enroll_student ::
  "Database \<Rightarrow> string \<Rightarrow> int \<Rightarrow> (bool \<times> string) \<times> Database" where
  "enroll_student db sid x =
     (let ((result, success), db') = sp_EnrollStudent db sid x;
          message = (if result = [] then ''Unknown error'' else result)
      in ((success, message), db'\<lparr>statements := Suc (statements db')\<rparr>))"

text \<open>\<^verbatim>\<open>StudentService.enroll_in_course\<close> passes the DAO's answer on.\<close>

definition enroll_in_course ::
  "Database \<Rightarrow> string \<Rightarrow> int \<Rightarrow> (bool \<times> string) \<times> Database" where
  "enroll_in_course db sid x = enroll_student db sid x"


section \<open>Histories of enrollment operations\<close>

datatype Operation =
    Enroll string int
  | Drop string int
  | PostGrade int real

fun apply_operation :: "Database \<Rightarrow> Operation \<Rightarrow> Database" where
  "apply_operation db (Enroll sid x) = snd (enroll_in_course db sid x)"
| "apply_operation db (Drop sid x) = snd (drop_course db sid x)"
| "apply_operation db (PostGrade eid g) = snd (update_student_grade db eid g)"

definition run_operations :: "Database \<Rightarrow> Operation list \<Rightarrow> Database" where
  "run_operations db ops = foldl apply_operation db ops"


section \<open>A sample store\<close>

text \<open>
  Fall 2024: section 1 is a 38-credit thesis block, sections 2 and 3 meet at the same
  time, section 4 has its single seat taken, section 5 has no time slot. Student S003
  has dropped section 2; student S004 has no enrollment. All credits are small whole
  numbers, whose floating-point sums are exact, so on this store the additions are
  the exact ones; rows come back in table order.
\<close>

definition sample_sections :: "int \<rightharpoonup> Section_row" where
  "sample_sections =
     [1 \<mapsto> \<lparr>CourseID = ''TH900'', Semester = ''Fall'', Year = 2024, MaxCapacity = 30,
             TimeSlot = Some ''TTh 14:00-15:15''\<rparr>,
      2 \<mapsto> \<lparr>CourseID = ''CS101'', Semester = ''Fall'', Year = 2024, MaxCapacity = 30,
             TimeSlot = Some ''MWF 09:00-09:50''\<rparr>,
      3 \<mapsto> \<lparr>CourseID = ''MA201'', Semester = ''Fall'', Year = 2024, MaxCapacity = 30,
             TimeSlot = Some ''MWF 09:00-09:50''\<rparr>,
      4 \<mapsto> \<lparr>CourseID = ''CS101'', Semester = ''Fall'', Year = 2024, MaxCapacity = 1,
             TimeSlot = Some ''TTh 14:00-15:15''\<rparr>,
      5 \<mapsto> \<lparr>CourseID = ''MA201'', Semester = ''Fall'', Year = 2024, MaxCapacity = 30,
             TimeSlot = None\<rparr>]"

definition sample_courses :: "string \<rightharpoonup> Course_row" where
  "sample_courses =
     [''TH900'' \<mapsto> \<lparr>CourseName = ''Thesis'', Credits = 38\<rparr>,
      ''CS101'' \<mapsto> \<lparr>CourseName = ''Programming'', Credits = 4\<rparr>,
      ''MA201'' \<mapsto> \<lparr>CourseName = ''Algebra'', Credits = 2\<rparr>]"

definition sample_students :: "string \<rightharpoonup> string" where
  "sample_students =
     [''S001'' \<mapsto> ''Ada'', ''S002'' \<mapsto> ''Ben'', ''S003'' \<mapsto> ''Cyd'',
      ''S004'' \<mapsto> ''Dee'', ''S005'' \<mapsto> ''Eli'']"

definition sample_enrollments :: "Enrollment_row list" where
  "sample_enrollments =
     [\<lparr>EnrollmentID = 1, StudentID = ''S001'', SectionID = 1, Status = ENROLLED,
       FinalGrade = None, GradePoints = None\<rparr>,
      \<lparr>EnrollmentID = 2, StudentID = ''S002'', SectionID = 2, Status = ENROLLED,
       FinalGrade = None, GradePoints = None\<rparr>,
      \<lparr>EnrollmentID = 3, StudentID = ''S003'', SectionID = 2, Status = DROPPED,
       FinalGrade = None, GradePoints = None\<rparr>,
      \<lparr>EnrollmentID = 4, StudentID = ''S005'', SectionID = 4, Status = ENROLLED,
       FinalGrade = None, GradePoints = None\<rparr>,
      \<lparr>EnrollmentID = 5, StudentID = ''S005'', SectionID = 5, Status = ENROLLED,
       FinalGrade = None, GradePoints = None\<rparr>]"

definition sample_platform :: Platform where
  "sample_platform = \<lparr>float_sum = sum_list, float_add = (+), order_by = (\<lambda>rows. rows)\<rparr>"

definition sample_db :: Database where
  "sample_db =
     \<lparr>Student_tbl = sample_students,
      Course_tbl = sample_courses,
      Section_tbl = sample_sections,
      Enrollment_tbl = sample_enrollments,
      statements = 0\<rparr>"

section \<open>Auxiliary facts\<close>

lemmas sample_defs = sample_db_def sample_sections_def sample_courses_def sample_students_def
  sample_enrollments_def sample_platform_def

lemmas query_defs = get_section_by_id_def get_student_enrollments_def current_enrollments_def
  current_credits_def enrollment_info_row_def CurrentCount_def truthy_str_def truthy_int_def
  truthy_real_def

lemma update_student_grade_out_of_range:
  "\<not> (0 \<le> g \<and> g \<le> 100) \<Longrightarrow>
     update_student_grade db i g = ((False, ''Grade must be between 0 and 100''), db)"
  by (simp add: update_student_grade_def)

lemma update_student_grade_in_range:
  "0 \<le> g \<Longrightarrow> g \<le> 100 \<Longrightarrow>
     snd (update_student_grade db i g) =
       db\<lparr>Enrollment_tbl :=
            map (\<lambda>e. if EnrollmentID e = i
                     then e\<lparr>FinalGrade := Some g,
                            GradePoints := Some (scale_lookup GRADE_SCALE g),
                            Status := (if 60 \<le> g then COMPLETED else FAILED)\<rparr>
                     else e) (Enrollment_tbl db),
          statements := Suc (statements db)\<rparr>"
  by (simp add: update_student_grade_def update_grade_def execute_update_def
      calculate_grade_points_def Let_def)

lemma dropped_row_differs: "Status e = ENROLLED \<Longrightarrow> e\<lparr>Status := DROPPED\<rparr> \<noteq> e"
proof
  assume a: "Status e = ENROLLED" and b: "e\<lparr>Status := DROPPED\<rparr> = e"
  from b have "Status (e\<lparr>Status := DROPPED\<rparr>) = Status e" by simp
  with a show False by simp
qed

lemma time_conflict_loop_iff:
  "time_conflict_loop es sec \<longleftrightarrow>
     (\<exists>e \<in> set es. status e = ENROLLED \<and> truthy_str (time_slot e)
        \<and> truthy_str (SectionInfo.time_slot sec) \<and> time_slot e = SectionInfo.time_slot sec)"
  by (induction es) auto

lemma already_enrolled_loop_iff:
  "already_enrolled_loop es x \<longleftrightarrow> (\<exists>e \<in> set es. section_id e = x)"
  by (induction es) auto

lemma drop_course_eq:
  "drop_course db s x =
     ((if \<exists>e \<in> set (Enrollment_tbl db). StudentID e = s \<and> SectionID e = x \<and> Status e = ENROLLED
       then (True, ''Course dropped successfully'')
       else (False, ''Failed to drop course - enrollment not found or already dropped'')),
      db\<lparr>Enrollment_tbl :=
            map (\<lambda>e. if StudentID e = s \<and> SectionID e = x \<and> Status e = ENROLLED
                     then e\<lparr>Status := DROPPED\<rparr> else e) (Enrollment_tbl db),
         statements := Suc (statements db)\<rparr>)"
proof -
  have "filter (\<lambda>e. (StudentID e = s \<and> SectionID e = x \<and> Status e = ENROLLED)
                  \<and> e\<lparr>Status := DROPPED\<rparr> \<noteq> e) (Enrollment_tbl db)
        = filter (\<lambda>e. StudentID e = s \<and> SectionID e = x \<and> Status e = ENROLLED) (Enrollment_tbl db)"
    by (rule filter_cong) (auto simp: dropped_row_differs)
  then show ?thesis
    by (simp add: drop_course_def drop_enrollment_def execute_update_def filter_empty_conv)
qed

lemma validate_past_capacity:
  "get_section_by_id db x = Some sec \<Longrightarrow> 0 < available_spots sec \<Longrightarrow>
   validate_enrollment_eligibility pf db sid x =
     (if float_add pf (current_credits pf (current_enrollments pf db sid sec))
           (SectionInfo.credits sec) > 40
      then (False, [''Exceeds maximum credit limit (40)''])
      else if time_conflict_loop (current_enrollments pf db sid sec) sec
      then (False, [''Time conflict with existing enrollment''])
      else if already_enrolled_loop (current_enrollments pf db sid sec) x
      then (False, [''Already enrolled in this section''])
      else (True, if float_add pf (current_credits pf (current_enrollments pf db sid sec))
                       (SectionInfo.credits sec) < 10
                     \<and> current_enrollments pf db sid sec = []
                  then [''Below minimum credit recommendation (10)''] else []))"
  by (simp add: validate_enrollment_eligibility_def Let_def MAX_CREDITS_PER_SEMESTER_def
      MIN_CREDITS_PER_SEMESTER_def)

lemma filter_map_shrinks:
  "(\<And>e. P (f e) \<Longrightarrow> P e) \<Longrightarrow> length (filter P (map f xs)) \<le> length (filter P xs)"
proof (induction xs)
  case Nil
  then show ?case by simp
next
  case (Cons a xs)
  then show ?case by (cases "P (f a)") (auto simp: le_SucI)
qed

lemma execute_update_CurrentCount:
  assumes "\<And>e. cond e \<Longrightarrow> SectionID (assign e) = y \<and> Status (assign e) = ENROLLED
              \<Longrightarrow> SectionID e = y \<and> Status e = ENROLLED"
  shows "CurrentCount (snd (execute_update db cond assign)) y \<le> CurrentCount db y"
proof -
  have "length (filter (\<lambda>e. SectionID e = y \<and> Status e = ENROLLED)
                 (map (\<lambda>e. if cond e then assign e else e) (Enrollment_tbl db)))
        \<le> length (filter (\<lambda>e. SectionID e = y \<and> Status e = ENROLLED) (Enrollment_tbl db))"
    by (rule filter_map_shrinks) (use assms in \<open>auto split: if_splits\<close>)
  then show ?thesis
    by (simp add: CurrentCount_def execute_update_def)
qed

lemma drop_course_CurrentCount:
  "CurrentCount (snd (drop_course db s x)) y \<le> CurrentCount db y"
proof -
  have "snd (drop_course db s x) =
          snd (execute_update db
                 (\<lambda>e. StudentID e = s \<and> SectionID e = x \<and> Status e = ENROLLED)
                 (\<lambda>e. e\<lparr>Status := DROPPED\<rparr>))"
    by (simp add: drop_course_def drop_enrollment_def split: prod.splits)
  moreover have "CurrentCount (snd (execute_update db
                 (\<lambda>e. StudentID e = s \<and> SectionID e = x \<and> Status e = ENROLLED)
                 (\<lambda>e. e\<lparr>Status := DROPPED\<rparr>))) y \<le> CurrentCount db y"
    by (rule execute_update_CurrentCount) simp
  ultimately show ?thesis by simp
qed

lemma update_student_grade_CurrentCount:
  "CurrentCount (snd (update_student_grade db i g)) y \<le> CurrentCount db y"
proof (cases "0 \<le> g \<and> g \<le> 100")
  case False
  then show ?thesis by (simp add: update_student_grade_out_of_range)
next
  case True
  then have "snd (update_student_grade db i g) =
          snd (execute_update db (\<lambda>e. EnrollmentID e = i)
                 (\<lambda>e. e\<lparr>FinalGrade := Some g,
                        GradePoints := calculate_grade_points (Some g),
                        Status := (if g \<ge> 60 then COMPLETED else FAILED)\<rparr>))"
    by (simp add: update_student_grade_def update_grade_def Let_def split: prod.splits)
  moreover have "CurrentCount (snd (execute_update db (\<lambda>e. EnrollmentID e = i)
                 (\<lambda>e. e\<lparr>FinalGrade := Some g,
                        GradePoints := calculate_grade_points (Some g),
                        Status := (if g \<ge> 60 then COMPLETED else FAILED)\<rparr>))) y
                 \<le> CurrentCount db y"
    by (rule execute_update_CurrentCount) (simp split: if_splits)
  ultimately show ?thesis by simp
qed

lemma drop_course_Section_tbl: "Section_tbl (snd (drop_course db s x)) = Section_tbl db"
  by (simp add: drop_course_eq)

lemma update_student_grade_Section_tbl:
  "Section_tbl (snd (update_student_grade db i g)) = Section_tbl db"
  by (cases "0 \<le> g \<and> g \<le> 100")
     (simp_all add: update_student_grade_in_range update_student_grade_out_of_range)

lemma enroll_student_cases:
  "(fst (fst (enroll_student db sid x)) = False
      \<and> Enrollment_tbl (snd (enroll_student db sid x)) = Enrollment_tbl db
      \<and> Section_tbl (snd (enroll_student db sid x)) = Section_tbl db)
   \<or> (fst (fst (enroll_student db sid x)) = True
      \<and> (\<exists>target. Section_tbl db x = Some target \<and> 0 < MaxCapacity target - CurrentCount db x)
      \<and> Section_tbl (snd (enroll_student db sid x)) = Section_tbl db
      \<and> (\<exists>row. SectionID row = x \<and> Status row = ENROLLED \<and> StudentID row = sid
            \<and> Enrollment_tbl (snd (enroll_student db sid x)) = Enrollment_tbl db @ [row]))"
  by (simp add: enroll_student_def sp_EnrollStudent_def Let_def split: option.splits prod.splits)

lemma enroll_student_preserves:
  assumes inv: "\<forall>y sec. Section_tbl db y = Some sec \<longrightarrow> CurrentCount db y \<le> MaxCapacity sec"
  shows "\<forall>y sec. Section_tbl (snd (enroll_student db sid x)) y = Some sec \<longrightarrow>
           CurrentCount (snd (enroll_student db sid x)) y \<le> MaxCapacity sec"
proof (intro allI impI)
  fix y sec
  assume sec: "Section_tbl (snd (enroll_student db sid x)) y = Some sec"
  let ?db' = "snd (enroll_student db sid x)"
  from enroll_student_cases [of db sid x]
  show "CurrentCount ?db' y \<le> MaxCapacity sec"
  proof (elim disjE conjE exE)
    assume "Enrollment_tbl ?db' = Enrollment_tbl db" and "Section_tbl ?db' = Section_tbl db"
    with sec inv show ?thesis by (simp add: CurrentCount_def)
  next
    fix target row
    assume t: "Section_tbl db x = Some target" "0 < MaxCapacity target - CurrentCount db x"
      and s: "Section_tbl ?db' = Section_tbl db"
      and r: "SectionID row = x" "Status row = ENROLLED"
             "Enrollment_tbl ?db' = Enrollment_tbl db @ [row]"
    from r have cnt: "CurrentCount ?db' y = CurrentCount db y + (if x = y then 1 else 0)"
      by (simp add: CurrentCount_def)
    from sec s have sec': "Section_tbl db y = Some sec" by simp
    show ?thesis
    proof (cases "x = y")
      case True
      with t sec' cnt show ?thesis by simp
    next
      case False
      with inv sec' cnt show ?thesis by simp
    qed
  qed
qed

lemma apply_operation_preserves:
  assumes inv: "\<forall>y sec. Section_tbl db y = Some sec \<longrightarrow> CurrentCount db y \<le> MaxCapacity sec"
  shows "\<forall>y sec. Section_tbl (apply_operation db op) y = Some sec \<longrightarrow>
           CurrentCount (apply_operation db op) y \<le> MaxCapacity sec"
proof (cases op)
  case (Enroll sid x)
  with enroll_student_preserves [OF inv, of sid x] show ?thesis
    by (simp add: enroll_in_course_def)
next
  case (Drop sid x)
  show ?thesis
  proof (intro allI impI)
    fix y sec
    assume "Section_tbl (apply_operation db op) y = Some sec"
    with Drop have "Section_tbl db y = Some sec" by (simp add: drop_course_Section_tbl)
    with inv have "CurrentCount db y \<le> MaxCapacity sec" by simp
    with drop_course_CurrentCount [of db sid x y] Drop
    show "CurrentCount (apply_operation db op) y \<le> MaxCapacity sec" by simp
  qed
next
  case (PostGrade eid g)
  show ?thesis
  proof (intro allI impI)
    fix y sec
    assume "Section_tbl (apply_operation db op) y = Some sec"
    with PostGrade have "Section_tbl db y = Some sec"
      by (simp add: update_student_grade_Section_tbl)
    with inv have "CurrentCount db y \<le> MaxCapacity sec" by simp
    with update_student_grade_CurrentCount [of db eid g y] PostGrade
    show "CurrentCount (apply_operation db op) y \<le> MaxCapacity sec" by simp
  qed
qed

lemma run_operations_preserves:
  "\<forall>y sec. Section_tbl db y = Some sec \<longrightarrow> CurrentCount db y \<le> MaxCapacity sec \<Longrightarrow>
   \<forall>y sec. Section_tbl (run_operations db ops) y = Some sec \<longrightarrow>
           CurrentCount (run_operations db ops) y \<le> MaxCapacity sec"
proof (induction ops arbitrary: db)
  case Nil
  then show ?case by (simp add: run_operations_def)
next
  case (Cons op ops)
  from apply_operation_preserves [OF Cons.prems, of op]
  have "\<forall>y sec. Section_tbl (run_operations (apply_operation db op) ops) y = Some sec \<longrightarrow>
           CurrentCount (run_operations (apply_operation db op) ops) y \<le> MaxCapacity sec"
    by (rule Cons.IH)
  then show ?case by (simp add: run_operations_def)
qed

lemma apply_operation_Section_tbl: "Section_tbl (apply_operation db op) = Section_tbl db"
proof (cases op)
  case (Enroll sid x)
  with enroll_student_cases [of db sid x] show ?thesis
    by (auto simp: enroll_in_course_def)
next
  case (Drop sid x)
  then show ?thesis by (simp add: drop_course_Section_tbl)
next
  case (PostGrade eid g)
  then show ?thesis by (simp add: update_student_grade_Section_tbl)
qed

lemma run_operations_Section_tbl: "Section_tbl (run_operations db ops) = Section_tbl db"
  unfolding run_operations_def
  by (induction ops arbitrary: db) (simp_all add: apply_operation_Section_tbl)

lemma sample_db_within_capacity:
  "\<forall>y sec. Section_tbl sample_db y = Some sec \<longrightarrow> CurrentCount sample_db y \<le> MaxCapacity sec"
  by (simp add: sample_defs CurrentCount_def)


section \<open>Capacity is never oversold\<close>

text \<open>
  C1. Starting from a store in which no section holds more Enrolled rows than its
  MaxCapacity, every store reached by a sequence of enroll, drop and grade-posting
  operations has the same property; and an enrollment call can only succeed when the
  target section exists with \<open>capacity - enrolled_count > 0\<close>. The enrollment step is
  the stored procedure as the spec describes it.
\<close>

theorem capacity_never_exceeded:
  assumes "\<forall>y sec. Section_tbl db y = Some sec \<longrightarrow> CurrentCount db y \<le> MaxCapacity sec"
  shows "(\<forall>y sec. Section_tbl (run_operations db ops) y = Some sec \<longrightarrow>
           CurrentCount (run_operations db ops) y \<le> MaxCapacity sec)
       \<and> (fst (fst (enroll_student db sid x)) \<longrightarrow>
           (\<exists>target. Section_tbl db x = Some target
                \<and> 0 < MaxCapacity target - CurrentCount db x))"
proof
  from assms show "\<forall>y sec. Section_tbl (run_operations db ops) y = Some sec \<longrightarrow>
           CurrentCount (run_operations db ops) y \<le> MaxCapacity sec"
    by (rule run_operations_preserves)
next
  from enroll_student_cases [of db sid x]
  show "fst (fst (enroll_student db sid x)) \<longrightarrow>
           (\<exists>target. Section_tbl db x = Some target
                \<and> 0 < MaxCapacity target - CurrentCount db x)"
    by blast
qed

text \<open>
  On the sample store: after a refused enrollment in the full section 4, an accepted
  one in section 2, a drop and a grade posting, section 4 still holds at most its one
  seat; and the accepted enrollment found a free seat.
\<close>

theorem capacity_never_exceeded_witness:
  "CurrentCount (run_operations sample_db
       [Enroll ''S004'' 4, Enroll ''S004'' 2, Drop ''S002'' 2, PostGrade 1 75]) 4 \<le> 1
   \<and> fst (fst (enroll_student sample_db ''S004'' 2))
   \<and> 0 < 30 - CurrentCount sample_db 2"
proof -
  let ?ops = "[Enroll ''S004'' 4, Enroll ''S004'' 2, Drop ''S002'' 2, PostGrade 1 75]"
  let ?s4 = "\<lparr>CourseID = ''CS101'', Semester = ''Fall'', Year = 2024, MaxCapacity = 1,
            TimeSlot = Some ''TTh 14:00-15:15''\<rparr>"
  let ?s2 = "\<lparr>CourseID = ''CS101'', Semester = ''Fall'', Year = 2024, MaxCapacity = 30,
            TimeSlot = Some ''MWF 09:00-09:50''\<rparr>"
  note main = capacity_never_exceeded [OF sample_db_within_capacity, of ?ops "''S004''" 2]
  have sec4: "Section_tbl (run_operations sample_db ?ops) 4 = Some ?s4"
    by (simp add: run_operations_Section_tbl sample_defs)
  have sec2: "Section_tbl sample_db 2 = Some ?s2"
    by (simp add: sample_defs)
  have ok: "fst (fst (enroll_student sample_db ''S004'' 2))"
    by code_simp
  from main have "Section_tbl (run_operations sample_db ?ops) 4 = Some ?s4 \<longrightarrow>
      CurrentCount (run_operations sample_db ?ops) 4 \<le> MaxCapacity ?s4"
    by blast
  with sec4 have c4: "CurrentCount (run_operations sample_db ?ops) 4 \<le> 1"
    by simp
  from main ok obtain target where
    t: "Section_tbl sample_db 2 = Some target" "0 < MaxCapacity target - CurrentCount sample_db 2"
    by blast
  from t(1) sec2 have "target = ?s2" by simp
  with t(2) have "0 < 30 - CurrentCount sample_db 2" by simp
  with c4 ok show ?thesis by simp
qed


section \<open>Grade posting\<close>

text \<open>
  C2 (amended). Posting a final grade of 75 sets every row of that enrollment
  identifier to Completed with the grade and 1.7 grade points (75 lies in the table's
  73 to 76 entry); posting 55 sets it to Failed with 0.0 grade points.
\<close>

theorem post_grade_75_and_55:
  "Enrollment_tbl (snd (update_student_grade db i 75)) =
     map (\<lambda>e. if EnrollmentID e = i
              then e\<lparr>FinalGrade := Some 75, GradePoints := Some (17 / 10), Status := COMPLETED\<rparr>
              else e) (Enrollment_tbl db)
   \<and> Enrollment_tbl (snd (update_student_grade db i 55)) =
     map (\<lambda>e. if EnrollmentID e = i
              then e\<lparr>FinalGrade := Some 55, GradePoints := Some 0, Status := FAILED\<rparr>
              else e) (Enrollment_tbl db)"
  by (simp add: update_student_grade_in_range GRADE_SCALE_def)

text \<open>Enrollment 1 of the sample store, graded 75 and graded 55.\<close>

theorem post_grade_75_and_55_witness:
  "hd (Enrollment_tbl (snd (update_student_grade sample_db 1 75))) =
     \<lparr>EnrollmentID = 1, StudentID = ''S001'', SectionID = 1, Status = COMPLETED,
      FinalGrade = Some 75, GradePoints = Some (17 / 10)\<rparr>
   \<and> hd (Enrollment_tbl (snd (update_student_grade sample_db 1 55))) =
     \<lparr>EnrollmentID = 1, StudentID = ''S001'', SectionID = 1, Status = FAILED,
      FinalGrade = Some 55, GradePoints = Some 0\<rparr>"
  using post_grade_75_and_55 [of sample_db 1]
  by (simp add: sample_defs)

text \<open>
  The claim as written, with 3.0 grade points for a grade of 75, fails: the row gets
  1.7.
\<close>

theorem post_grade_75_counterexample:
  "Status (hd (Enrollment_tbl (snd (update_student_grade sample_db 1 75)))) = COMPLETED
   \<and> GradePoints (hd (Enrollment_tbl (snd (update_student_grade sample_db 1 75)))) = Some (17 / 10)
   \<and> GradePoints (hd (Enrollment_tbl (snd (update_student_grade sample_db 1 75)))) \<noteq> Some 3"
  by (simp add: update_student_grade_in_range GRADE_SCALE_def sample_defs)

text \<open>
  C3. The grade scale returns a value for every grade, but it is not monotonic on
  non-integer grades: 96 earns 3.7 grade points, while 96.5 lies between the entries
  93 to 96 and 97 to 100, matches no entry and earns 0.0.
\<close>

theorem grade_points_fall_between_entries:
  "(96 :: real) < 193 / 2
   \<and> calculate_grade_points (Some 96) = Some (37 / 10)
   \<and> calculate_grade_points (Some (193 / 2)) = Some 0
   \<and> \<not> (scale_lookup GRADE_SCALE 96 \<le> scale_lookup GRADE_SCALE (193 / 2))"
  by (simp add: calculate_grade_points_def GRADE_SCALE_def)

text \<open>
  C4. A final grade outside [0,100] is refused and the store is left as it was, with
  no statement sent. A grade in [0,100] is written by exactly one statement, which
  sets final grade, grade points and status of every row of that enrollment
  identifier together and touches nothing else; the status written is Completed
  exactly when the grade is at least 60 and Failed exactly when it is below.
\<close>

theorem grade_posting_validates_then_writes_once:
  "(\<not> (0 \<le> g \<and> g \<le> 100) \<longrightarrow>
      update_student_grade db i g = ((False, ''Grade must be between 0 and 100''), db))
   \<and> (0 \<le> g \<and> g \<le> 100 \<longrightarrow>
      snd (update_student_grade db i g) =
        db\<lparr>Enrollment_tbl :=
             map (\<lambda>e. if EnrollmentID e = i
                      then e\<lparr>FinalGrade := Some g,
                             GradePoints := calculate_grade_points (Some g),
                             Status := (if 60 \<le> g then COMPLETED else FAILED)\<rparr>
                      else e) (Enrollment_tbl db),
           statements := Suc (statements db)\<rparr>
      \<and> (\<forall>e \<in> set (Enrollment_tbl (snd (update_student_grade db i g))).
            EnrollmentID e = i \<longrightarrow>
              FinalGrade e = Some g
              \<and> GradePoints e = calculate_grade_points (Some g)
              \<and> (Status e = COMPLETED \<longleftrightarrow> 60 \<le> g)
              \<and> (Status e = FAILED \<longleftrightarrow> g < 60)))"
proof -
  define f where "f = (\<lambda>e :: Enrollment_row. if EnrollmentID e = i
                      then e\<lparr>FinalGrade := Some g,
                             GradePoints := calculate_grade_points (Some g),
                             Status := (if 60 \<le> g then COMPLETED else FAILED)\<rparr>
                      else e)"
  have out: "\<not> (0 \<le> g \<and> g \<le> 100) \<Longrightarrow>
      update_student_grade db i g = ((False, ''Grade must be between 0 and 100''), db)"
    by (rule update_student_grade_out_of_range)
  have w: "snd (update_student_grade db i g) =
        db\<lparr>Enrollment_tbl := map f (Enrollment_tbl db), statements := Suc (statements db)\<rparr>"
    if "0 \<le> g \<and> g \<le> 100"
    using that unfolding f_def
    by (simp add: update_student_grade_in_range calculate_grade_points_def)
  have row: "FinalGrade (f e0) = Some g
              \<and> GradePoints (f e0) = calculate_grade_points (Some g)
              \<and> (Status (f e0) = COMPLETED \<longleftrightarrow> 60 \<le> g)
              \<and> (Status (f e0) = FAILED \<longleftrightarrow> g < 60)"
    if "EnrollmentID (f e0) = i" for e0
  proof (cases "EnrollmentID e0 = i")
    case True
    then show ?thesis by (simp add: f_def)
  next
    case False
    with that show ?thesis by (simp add: f_def)
  qed
  have rows: "\<forall>e \<in> set (Enrollment_tbl (snd (update_student_grade db i g))).
            EnrollmentID e = i \<longrightarrow>
              FinalGrade e = Some g
              \<and> GradePoints e = calculate_grade_points (Some g)
              \<and> (Status e = COMPLETED \<longleftrightarrow> 60 \<le> g)
              \<and> (Status e = FAILED \<longleftrightarrow> g < 60)"
    if r: "0 \<le> g \<and> g \<le> 100"
  proof (intro ballI impI)
    fix e
    assume "e \<in> set (Enrollment_tbl (snd (update_student_grade db i g)))"
      and hit: "EnrollmentID e = i"
    with w [OF r] have "e \<in> f ` set (Enrollment_tbl db)" by simp
    then obtain e0 where "e = f e0" by blast
    with hit row [of e0] show "FinalGrade e = Some g
              \<and> GradePoints e = calculate_grade_points (Some g)
              \<and> (Status e = COMPLETED \<longleftrightarrow> 60 \<le> g)
              \<and> (Status e = FAILED \<longleftrightarrow> g < 60)"
      by blast
  qed
  from out w rows show ?thesis
    unfolding f_def by blast
qed

text \<open>
  On the sample store: 101 is refused and nothing is sent; 59.5 is written to
  enrollment 1 as Failed by one statement.
\<close>

theorem grade_posting_validates_then_writes_once_witness:
  "update_student_grade sample_db 1 101 = ((False, ''Grade must be between 0 and 100''), sample_db)
   \<and> statements (snd (update_student_grade sample_db 1 (119 / 2))) = 1
   \<and> hd (Enrollment_tbl (snd (update_student_grade sample_db 1 (119 / 2)))) =
     \<lparr>EnrollmentID = 1, StudentID = ''S001'', SectionID = 1, Status = FAILED,
      FinalGrade = Some (119 / 2), GradePoints = Some 0\<rparr>"
proof -
  from grade_posting_validates_then_writes_once [of 101 sample_db 1]
  have a: "update_student_grade sample_db 1 101 =
      ((False, ''Grade must be between 0 and 100''), sample_db)"
    by simp
  from grade_posting_validates_then_writes_once [of "119 / 2" sample_db 1]
  have b: "snd (update_student_grade sample_db 1 (119 / 2)) =
        sample_db\<lparr>Enrollment_tbl :=
             map (\<lambda>e. if EnrollmentID e = 1
                      then e\<lparr>FinalGrade := Some (119 / 2),
                             GradePoints := calculate_grade_points (Some (119 / 2)),
                             Status := (if (60::real) \<le> 119 / 2 then COMPLETED else FAILED)\<rparr>
                      else e) (Enrollment_tbl sample_db),
           statements := Suc (statements sample_db)\<rparr>"
    by simp
  have c: "calculate_grade_points (Some (119 / 2)) = Some 0"
    by (simp add: calculate_grade_points_def GRADE_SCALE_def)
  show ?thesis
    unfolding a b c by (simp add: sample_defs)
qed

text \<open>
  C10. Every final grade from 60 to 64 turns the rows of the enrollment to Completed
  with 0.0 grade points: the grade passes the threshold of 60 but lies in the table's
  0 to 64 entry.
\<close>

theorem passing_grade_with_zero_points:
  assumes "60 \<le> g" and "g \<le> 64"
  shows "Enrollment_tbl (snd (update_student_grade db i g)) =
     map (\<lambda>e. if EnrollmentID e = i
              then e\<lparr>FinalGrade := Some g, GradePoints := Some 0, Status := COMPLETED\<rparr>
              else e) (Enrollment_tbl db)"
  using assms by (simp add: update_student_grade_in_range GRADE_SCALE_def)

text \<open>Enrollment 2 of the sample store, graded 62.\<close>

theorem passing_grade_with_zero_points_witness:
  "(60 :: real) \<le> 62 \<and> (62 :: real) \<le> 64
   \<and> Enrollment_tbl (snd (update_student_grade sample_db 2 62)) ! 1 =
     \<lparr>EnrollmentID = 2, StudentID = ''S002'', SectionID = 2, Status = COMPLETED,
      FinalGrade = Some 62, GradePoints = Some 0\<rparr>"
  using passing_grade_with_zero_points [of 62 sample_db 2]
  by (simp add: sample_defs)


section \<open>Dropping a course\<close>

text \<open>
  C8. If the student holds a row with status Enrolled for the section, dropping
  reports success and turns exactly the Enrolled rows of that pair to Dropped. If
  there is no such row, dropping reports failure and leaves every table as it was
  (the one UPDATE sent matches nothing). In either case a further drop of the same
  pair reports failure and changes no row.
\<close>

theorem drop_course_transitions_or_reports_failure:
  "((\<exists>e \<in> set (Enrollment_tbl db). StudentID e = s \<and> SectionID e = x \<and> Status e = ENROLLED) \<longrightarrow>
      fst (drop_course db s x) = (True, ''Course dropped successfully'')
      \<and> Enrollment_tbl (snd (drop_course db s x)) =
          map (\<lambda>e. if StudentID e = s \<and> SectionID e = x \<and> Status e = ENROLLED
                   then e\<lparr>Status := DROPPED\<rparr> else e) (Enrollment_tbl db))
   \<and> (\<not> (\<exists>e \<in> set (Enrollment_tbl db). StudentID e = s \<and> SectionID e = x \<and> Status e = ENROLLED) \<longrightarrow>
      drop_course db s x =
        ((False, ''Failed to drop course - enrollment not found or already dropped''),
         db\<lparr>statements := Suc (statements db)\<rparr>))
   \<and> fst (drop_course (snd (drop_course db s x)) s x) =
        (False, ''Failed to drop course - enrollment not found or already dropped'')
   \<and> Enrollment_tbl (snd (drop_course (snd (drop_course db s x)) s x)) =
        Enrollment_tbl (snd (drop_course db s x))"
proof -
  define hit where "hit = (\<lambda>e :: Enrollment_row.
      StudentID e = s \<and> SectionID e = x \<and> Status e = ENROLLED)"
  define upd where "upd = (\<lambda>e :: Enrollment_row. if hit e then e\<lparr>Status := DROPPED\<rparr> else e)"
  have eq: "drop_course d s x =
     ((if \<exists>e \<in> set (Enrollment_tbl d). hit e
       then (True, ''Course dropped successfully'')
       else (False, ''Failed to drop course - enrollment not found or already dropped'')),
      d\<lparr>Enrollment_tbl := map upd (Enrollment_tbl d), statements := Suc (statements d)\<rparr>)" for d
    unfolding hit_def upd_def by (rule drop_course_eq)
  have idle: "map upd (Enrollment_tbl d) = Enrollment_tbl d"
    if "\<not> (\<exists>e \<in> set (Enrollment_tbl d). hit e)" for d
    using that by (intro map_idI) (simp add: upd_def)
  have gone: "\<not> hit (upd e)" for e
    by (simp add: upd_def hit_def)
  have after: "\<not> (\<exists>e \<in> set (Enrollment_tbl (snd (drop_course db s x))). hit e)"
    using gone by (auto simp: eq)
  have one: "(\<exists>e \<in> set (Enrollment_tbl db). hit e) \<longrightarrow>
      fst (drop_course db s x) = (True, ''Course dropped successfully'')
      \<and> Enrollment_tbl (snd (drop_course db s x)) = map upd (Enrollment_tbl db)"
    by (simp add: eq)
  have two: "\<not> (\<exists>e \<in> set (Enrollment_tbl db). hit e) \<longrightarrow>
      drop_course db s x =
        ((False, ''Failed to drop course - enrollment not found or already dropped''),
         db\<lparr>statements := Suc (statements db)\<rparr>)"
    using idle [of db] by (simp add: eq)
  have three: "fst (drop_course (snd (drop_course db s x)) s x) =
        (False, ''Failed to drop course - enrollment not found or already dropped'')"
    using after by (simp add: eq [of "snd (drop_course db s x)"])
  have four: "Enrollment_tbl (snd (drop_course (snd (drop_course db s x)) s x)) =
        Enrollment_tbl (snd (drop_course db s x))"
    using idle [OF after] by (simp add: eq [of "snd (drop_course db s x)"])
  from one two three four show ?thesis
    unfolding hit_def upd_def by blast
qed

text \<open>
  On the sample store: S002 drops section 2 (one row turns to Dropped), S004, who is
  not enrolled, is refused, and S002's second drop is refused.
\<close>

theorem drop_course_transitions_or_reports_failure_witness:
  "fst (drop_course sample_db ''S002'' 2) = (True, ''Course dropped successfully'')
   \<and> map Status (Enrollment_tbl (snd (drop_course sample_db ''S002'' 2))) =
        [ENROLLED, DROPPED, DROPPED, ENROLLED, ENROLLED]
   \<and> drop_course sample_db ''S004'' 2 =
        ((False, ''Failed to drop course - enrollment not found or already dropped''),
         sample_db\<lparr>statements := 1\<rparr>)
   \<and> fst (drop_course (snd (drop_course sample_db ''S002'' 2)) ''S002'' 2) =
        (False, ''Failed to drop course - enrollment not found or already dropped'')"
proof -
  have held: "\<exists>e \<in> set (Enrollment_tbl sample_db).
      StudentID e = ''S002'' \<and> SectionID e = 2 \<and> Status e = ENROLLED"
    by (simp add: sample_defs)
  have none: "\<not> (\<exists>e \<in> set (Enrollment_tbl sample_db).
      StudentID e = ''S004'' \<and> SectionID e = 2 \<and> Status e = ENROLLED)"
    by (simp add: sample_defs)
  note a = drop_course_transitions_or_reports_failure [of sample_db "''S002''" 2]
  note b = drop_course_transitions_or_reports_failure [of sample_db "''S004''" 2]
  from a held have a1: "fst (drop_course sample_db ''S002'' 2) = (True, ''Course dropped successfully'')"
    and a2: "Enrollment_tbl (snd (drop_course sample_db ''S002'' 2)) =
          map (\<lambda>e. if StudentID e = ''S002'' \<and> SectionID e = 2 \<and> Status e = ENROLLED
                   then e\<lparr>Status := DROPPED\<rparr> else e) (Enrollment_tbl sample_db)"
    and a3: "fst (drop_course (snd (drop_course sample_db ''S002'' 2)) ''S002'' 2) =
        (False, ''Failed to drop course - enrollment not found or already dropped'')"
    by blast+
  from b none have b1: "drop_course sample_db ''S004'' 2 =
        ((False, ''Failed to drop course - enrollment not found or already dropped''),
         sample_db\<lparr>statements := Suc (statements sample_db)\<rparr>)"
    by blast
  have st: "map Status (Enrollment_tbl (snd (drop_course sample_db ''S002'' 2))) =
        [ENROLLED, DROPPED, DROPPED, ENROLLED, ENROLLED]"
    unfolding a2 by (simp add: sample_defs)
  have z: "Suc (statements sample_db) = 1" by (simp add: sample_defs)
  from a1 a3 b1 st z show ?thesis by simp
qed

lemma sample_section_1:
  "get_section_by_id sample_db 1 =
     Some \<lparr>SectionInfo.section_id = 1, course_id = ''TH900'', course_name = ''Thesis'',
           credits = 38, semester = ''Fall'', year = 2024, max_capacity = 30,
           current_enrollment = 1, available_spots = 29,
           time_slot = Some ''TTh 14:00-15:15''\<rparr>"
  by (simp add: sample_defs query_defs)

lemma sample_section_2:
  "get_section_by_id sample_db 2 =
     Some \<lparr>SectionInfo.section_id = 2, course_id = ''CS101'', course_name = ''Programming'',
           credits = 4, semester = ''Fall'', year = 2024, max_capacity = 30,
           current_enrollment = 1, available_spots = 29,
           time_slot = Some ''MWF 09:00-09:50''\<rparr>"
  by (simp add: sample_defs query_defs)

lemma sample_section_3:
  "get_section_by_id sample_db 3 =
     Some \<lparr>SectionInfo.section_id = 3, course_id = ''MA201'', course_name = ''Algebra'',
           credits = 2, semester = ''Fall'', year = 2024, max_capacity = 30,
           current_enrollment = 0, available_spots = 30,
           time_slot = Some ''MWF 09:00-09:50''\<rparr>"
  by (simp add: sample_defs query_defs)

lemma sample_section_4:
  "get_section_by_id sample_db 4 =
     Some \<lparr>SectionInfo.section_id = 4, course_id = ''CS101'', course_name = ''Programming'',
           credits = 4, semester = ''Fall'', year = 2024, max_capacity = 1,
           current_enrollment = 1, available_spots = 0,
           time_slot = Some ''TTh 14:00-15:15''\<rparr>"
  by (simp add: sample_defs query_defs)

lemma sample_section_5:
  "get_section_by_id sample_db 5 =
     Some \<lparr>SectionInfo.section_id = 5, course_id = ''MA201'', course_name = ''Algebra'',
           credits = 2, semester = ''Fall'', year = 2024, max_capacity = 30,
           current_enrollment = 1, available_spots = 29,
           time_slot = None\<rparr>"
  by (simp add: sample_defs query_defs)



section \<open>The eligibility check\<close>




text \<open>
  C7 (amended). When the target section exists with a free seat and the credit total
  the code computes does not exceed 40, the check fails with the time-conflict error
  exactly when some row of the current-term query with status Enrolled has a
  time-slot string that is present, not empty, and equal as a string to the target
  section's.
\<close>

theorem time_conflict_error_iff:
  assumes "get_section_by_id db x = Some sec" and "0 < available_spots sec"
    and "float_add pf (current_credits pf (current_enrollments pf db sid sec))
           (SectionInfo.credits sec) \<le> MAX_CREDITS_PER_SEMESTER"
  shows "validate_enrollment_eligibility pf db sid x =
           (False, [''Time conflict with existing enrollment''])
     \<longleftrightarrow> (\<exists>e \<in> set (current_enrollments pf db sid sec). status e = ENROLLED
            \<and> (\<exists>t. t \<noteq> [] \<and> time_slot e = Some t \<and> SectionInfo.time_slot sec = Some t))"
proof -
  have "time_conflict_loop (current_enrollments pf db sid sec) sec \<longleftrightarrow>
     (\<exists>e \<in> set (current_enrollments pf db sid sec). status e = ENROLLED
            \<and> (\<exists>t. t \<noteq> [] \<and> time_slot e = Some t \<and> SectionInfo.time_slot sec = Some t))"
    unfolding time_conflict_loop_iff
    by (cases "SectionInfo.time_slot sec") (auto simp: truthy_str_def)
  with assms show ?thesis
    by (simp add: validate_past_capacity MAX_CREDITS_PER_SEMESTER_def)
qed

text \<open>
  Student S002 is enrolled in section 2, which meets at "MWF 09:00-09:50"; section 3
  has the same time-slot string, and the check for it fails with the time-conflict
  error.
\<close>

theorem time_conflict_error_iff_witness:
  "validate_enrollment_eligibility sample_platform sample_db ''S002'' 3 =
     (False, [''Time conflict with existing enrollment''])"
proof -
  let ?s3 = "\<lparr>SectionInfo.section_id = 3, course_id = ''MA201'', course_name = ''Algebra'',
           credits = 2, semester = ''Fall'', year = 2024, max_capacity = 30,
           current_enrollment = 0, available_spots = 30,
           time_slot = Some ''MWF 09:00-09:50''\<rparr>"
  have cur: "map (\<lambda>e. (status e, time_slot e))
        (current_enrollments sample_platform sample_db ''S002'' ?s3) =
      [(ENROLLED, Some ''MWF 09:00-09:50'')]"
    by (simp add: sample_defs query_defs List.map_filter_simps)
  have cr: "current_credits sample_platform
        (current_enrollments sample_platform sample_db ''S002'' ?s3) = 4"
    by (simp add: sample_defs query_defs List.map_filter_simps)
  from cur obtain e where e: "current_enrollments sample_platform sample_db ''S002'' ?s3 = [e]"
      "status e = ENROLLED" "time_slot e = Some ''MWF 09:00-09:50''"
    by (cases "current_enrollments sample_platform sample_db ''S002'' ?s3") auto
  have "\<exists>e \<in> set (current_enrollments sample_platform sample_db ''S002'' ?s3).
          status e = ENROLLED
          \<and> (\<exists>t. t \<noteq> [] \<and> time_slot e = Some t \<and> SectionInfo.time_slot ?s3 = Some t)"
    using e by simp
  with time_conflict_error_iff [OF sample_section_3, of sample_platform "''S002''"] cr
  show ?thesis
    by (simp add: MAX_CREDITS_PER_SEMESTER_def sample_platform_def)
qed

text \<open>
  Without the proviso the claim fails: S005 is enrolled in section 4, which shares
  the time-slot string of section 1, but section 1 would take S005 over the credit
  limit (4 + 2 + 38) and the check reports that instead.
\<close>

theorem time_conflict_counterexample:
  "map_option SectionInfo.time_slot (get_section_by_id sample_db 1) = Some (Some ''TTh 14:00-15:15'')
   \<and> map_option (map status \<circ> current_enrollments sample_platform sample_db ''S005'')
        (get_section_by_id sample_db 1) = Some [ENROLLED, ENROLLED]
   \<and> map_option (map time_slot \<circ> current_enrollments sample_platform sample_db ''S005'')
        (get_section_by_id sample_db 1) = Some [Some ''TTh 14:00-15:15'', None]
   \<and> validate_enrollment_eligibility sample_platform sample_db ''S005'' 1 =
        (False, [''Exceeds maximum credit limit (40)''])"
  by (simp add: validate_enrollment_eligibility_def sample_section_1)
     (simp add: sample_defs query_defs List.map_filter_simps MAX_CREDITS_PER_SEMESTER_def)

text \<open>
  C9 (amended). If the target section exists with a free seat, the credit total the
  code computes is below 10 and the current-term query returns no row for the
  student, the check returns eligible together with the below-minimum-credits
  warning. Conversely, whenever the check returns that warning, it returns eligible,
  the section exists with a free seat, the total is below 10 and no current-term
  enrollment of the student has status Enrolled. The case of a student whose only
  current-term rows are Dropped, Completed or Failed is left open.
\<close>

theorem below_minimum_warning:
  "(get_section_by_id db x = Some sec \<and> 0 < available_spots sec
      \<and> float_add pf (current_credits pf (current_enrollments pf db sid sec))
            (SectionInfo.credits sec) < MIN_CREDITS_PER_SEMESTER
      \<and> current_enrollments pf db sid sec = []
    \<longrightarrow> validate_enrollment_eligibility pf db sid x =
          (True, [''Below minimum credit recommendation (10)'']))
   \<and> (''Below minimum credit recommendation (10)''
          \<in> set (snd (validate_enrollment_eligibility pf db sid x))
    \<longrightarrow> validate_enrollment_eligibility pf db sid x =
          (True, [''Below minimum credit recommendation (10)''])
        \<and> (\<exists>sec. get_section_by_id db x = Some sec \<and> 0 < available_spots sec
              \<and> float_add pf (current_credits pf (current_enrollments pf db sid sec))
                    (SectionInfo.credits sec) < MIN_CREDITS_PER_SEMESTER
              \<and> (\<forall>e \<in> set (current_enrollments pf db sid sec). status e \<noteq> ENROLLED)))"
proof (intro conjI impI)
  assume "get_section_by_id db x = Some sec \<and> 0 < available_spots sec
      \<and> float_add pf (current_credits pf (current_enrollments pf db sid sec))
            (SectionInfo.credits sec) < MIN_CREDITS_PER_SEMESTER
      \<and> current_enrollments pf db sid sec = []"
  then have found: "get_section_by_id db x = Some sec" and seat: "0 < available_spots sec"
    and low: "float_add pf (current_credits pf (current_enrollments pf db sid sec))
            (SectionInfo.credits sec) < MIN_CREDITS_PER_SEMESTER"
    and none: "current_enrollments pf db sid sec = []"
    by blast+
  from low have low': "float_add pf (current_credits pf []) (SectionInfo.credits sec) < 10"
    unfolding none MIN_CREDITS_PER_SEMESTER_def .
  show "validate_enrollment_eligibility pf db sid x =
          (True, [''Below minimum credit recommendation (10)''])"
    unfolding validate_past_capacity [OF found seat] none
    using low' by simp
next
  assume w: "''Below minimum credit recommendation (10)''
          \<in> set (snd (validate_enrollment_eligibility pf db sid x))"
  show "validate_enrollment_eligibility pf db sid x =
          (True, [''Below minimum credit recommendation (10)''])"
  proof (cases "get_section_by_id db x")
    case None
    with w show ?thesis by (simp add: validate_enrollment_eligibility_def)
  next
    case (Some sec)
    show ?thesis
    proof (cases "0 < available_spots sec")
      case False
      with Some w show ?thesis by (simp add: validate_enrollment_eligibility_def)
    next
      case True
      from w show ?thesis
        unfolding validate_past_capacity [OF Some True]
        by (auto split: if_splits)
    qed
  qed
next
  assume w: "''Below minimum credit recommendation (10)''
          \<in> set (snd (validate_enrollment_eligibility pf db sid x))"
  show "\<exists>sec. get_section_by_id db x = Some sec \<and> 0 < available_spots sec
              \<and> float_add pf (current_credits pf (current_enrollments pf db sid sec))
                    (SectionInfo.credits sec) < MIN_CREDITS_PER_SEMESTER
              \<and> (\<forall>e \<in> set (current_enrollments pf db sid sec). status e \<noteq> ENROLLED)"
  proof (cases "get_section_by_id db x")
    case None
    with w show ?thesis by (simp add: validate_enrollment_eligibility_def)
  next
    case (Some sec)
    show ?thesis
    proof (cases "0 < available_spots sec")
      case False
      with Some w show ?thesis by (simp add: validate_enrollment_eligibility_def)
    next
      case True
      from w have "float_add pf (current_credits pf (current_enrollments pf db sid sec))
                    (SectionInfo.credits sec) < MIN_CREDITS_PER_SEMESTER
          \<and> current_enrollments pf db sid sec = []"
        unfolding validate_past_capacity [OF Some True]
        by (auto simp: MIN_CREDITS_PER_SEMESTER_def split: if_splits)
      with Some True show ?thesis by auto
    qed
  qed
qed

text \<open>
  Student S004 has no enrollment; the check for the 4-credit section 2 returns
  eligible with the warning.
\<close>

theorem below_minimum_warning_witness:
  "validate_enrollment_eligibility sample_platform sample_db ''S004'' 2 =
     (True, [''Below minimum credit recommendation (10)''])
   \<and> map_option (current_enrollments sample_platform sample_db ''S004'')
        (get_section_by_id sample_db 2) = Some []"
proof -
  let ?s2 = "\<lparr>SectionInfo.section_id = 2, course_id = ''CS101'', course_name = ''Programming'',
           credits = 4, semester = ''Fall'', year = 2024, max_capacity = 30,
           current_enrollment = 1, available_spots = 29,
           time_slot = Some ''MWF 09:00-09:50''\<rparr>"
  have none: "current_enrollments sample_platform sample_db ''S004'' ?s2 = []"
    by (simp add: sample_defs query_defs List.map_filter_simps)
  have low: "float_add sample_platform
        (current_credits sample_platform (current_enrollments sample_platform sample_db ''S004'' ?s2))
        (SectionInfo.credits ?s2) < MIN_CREDITS_PER_SEMESTER"
    unfolding none
    by (simp add: sample_platform_def current_credits_def MIN_CREDITS_PER_SEMESTER_def)
  have seat: "0 < available_spots ?s2" by simp
  note t = below_minimum_warning [of sample_db 2 ?s2 sample_platform "''S004''", THEN conjunct1]
  from t sample_section_2 seat low none
  have "validate_enrollment_eligibility sample_platform sample_db ''S004'' 2 =
     (True, [''Below minimum credit recommendation (10)''])"
    by blast
  with none show ?thesis by (simp add: sample_section_2)
qed

text \<open>
  The claim as written fails: S004 has no enrollment and the full section 4 carries 4
  credits, a total below 10, but the check reports the full section and no warning.
\<close>

theorem below_minimum_warning_counterexample:
  "map_option (current_enrollments sample_platform sample_db ''S004'')
     (get_section_by_id sample_db 4) = Some []
   \<and> map_option SectionInfo.credits (get_section_by_id sample_db 4) = Some 4
   \<and> validate_enrollment_eligibility sample_platform sample_db ''S004'' 4 =
        (False, [''Section is full''])"
  by (simp add: validate_enrollment_eligibility_def sample_section_4)
     (simp add: sample_defs query_defs List.map_filter_simps)

text \<open>
  The warning's test counts the rows of the current-term query whatever their status,
  where the credit sum beside it counts Enrolled rows only. S003's only current-term
  row is Dropped: the credit sum is 0 and the 2-credit section 3 gives a total of 2,
  yet the check returns eligible without the warning.
\<close>

lemma dropped_row_suppresses_warning:
  "map_option (map status \<circ> current_enrollments sample_platform sample_db ''S003'')
       (get_section_by_id sample_db 3) = Some [DROPPED]
   \<and> map_option (current_credits sample_platform \<circ> current_enrollments sample_platform sample_db ''S003'')
        (get_section_by_id sample_db 3) = Some 0
   \<and> map_option SectionInfo.credits (get_section_by_id sample_db 3) = Some 2
   \<and> validate_enrollment_eligibility sample_platform sample_db ''S003'' 3 = (True, [])"
  by (simp add: validate_enrollment_eligibility_def sample_section_3)
     (simp add: sample_defs query_defs List.map_filter_simps MAX_CREDITS_PER_SEMESTER_def
        MIN_CREDITS_PER_SEMESTER_def)

text \<open>
  C6 (amended). When the earlier checks pass (the target section exists with a free
  seat, the credit total the code computes does not exceed 40, and the time-conflict
  loop finds nothing), the check fails with the already-enrolled error if the student
  holds a current-term row with status Enrolled for the target section, and it does
  not fail with that error if the student holds no current-term row for the target
  section. Rows of any other status are left open.
\<close>

theorem already_enrolled_error:
  assumes "get_section_by_id db x = Some sec" and "0 < available_spots sec"
    and "float_add pf (current_credits pf (current_enrollments pf db sid sec))
           (SectionInfo.credits sec) \<le> MAX_CREDITS_PER_SEMESTER"
    and "\<not> time_conflict_loop (current_enrollments pf db sid sec) sec"
  shows "((\<exists>e \<in> set (current_enrollments pf db sid sec). section_id e = x \<and> status e = ENROLLED)
           \<longrightarrow> validate_enrollment_eligibility pf db sid x =
                 (False, [''Already enrolled in this section'']))
       \<and> ((\<forall>e \<in> set (current_enrollments pf db sid sec). section_id e \<noteq> x)
           \<longrightarrow> validate_enrollment_eligibility pf db sid x \<noteq>
                 (False, [''Already enrolled in this section'']))"
proof -
  have v: "validate_enrollment_eligibility pf db sid x =
      (if already_enrolled_loop (current_enrollments pf db sid sec) x
       then (False, [''Already enrolled in this section''])
       else (True, if float_add pf (current_credits pf (current_enrollments pf db sid sec))
                        (SectionInfo.credits sec) < 10
                     \<and> current_enrollments pf db sid sec = []
                  then [''Below minimum credit recommendation (10)''] else []))"
    using assms by (simp add: validate_past_capacity MAX_CREDITS_PER_SEMESTER_def)
  show ?thesis
    unfolding v already_enrolled_loop_iff by auto
qed

text \<open>
  Student S005 is enrolled in section 5, which has no time slot: the check for
  section 5 fails with the already-enrolled error. Student S004 has no row for
  section 5 and does not get that error.
\<close>

theorem already_enrolled_error_witness:
  "validate_enrollment_eligibility sample_platform sample_db ''S005'' 5 =
     (False, [''Already enrolled in this section''])
   \<and> validate_enrollment_eligibility sample_platform sample_db ''S004'' 5 \<noteq>
     (False, [''Already enrolled in this section''])"
proof -
  let ?s5 = "\<lparr>SectionInfo.section_id = 5, course_id = ''MA201'', course_name = ''Algebra'',
           credits = 2, semester = ''Fall'', year = 2024, max_capacity = 30,
           current_enrollment = 1, available_spots = 29,
           time_slot = None\<rparr>"
  have seat: "0 < available_spots ?s5" by simp
  have cur5: "map (\<lambda>e. (section_id e, status e))
        (current_enrollments sample_platform sample_db ''S005'' ?s5) =
      [(4, ENROLLED), (5, ENROLLED)]"
    by (simp add: sample_defs query_defs List.map_filter_simps)
  have cr5: "float_add sample_platform
        (current_credits sample_platform (current_enrollments sample_platform sample_db ''S005'' ?s5))
        (SectionInfo.credits ?s5) \<le> MAX_CREDITS_PER_SEMESTER"
    by (simp add: sample_defs query_defs List.map_filter_simps MAX_CREDITS_PER_SEMESTER_def)
  have tc5: "\<not> time_conflict_loop (current_enrollments sample_platform sample_db ''S005'' ?s5) ?s5"
    by (simp add: time_conflict_loop_iff truthy_str_def)
  have cur4: "current_enrollments sample_platform sample_db ''S004'' ?s5 = []"
    by (simp add: sample_defs query_defs List.map_filter_simps)
  have cr4: "float_add sample_platform
        (current_credits sample_platform (current_enrollments sample_platform sample_db ''S004'' ?s5))
        (SectionInfo.credits ?s5) \<le> MAX_CREDITS_PER_SEMESTER"
    unfolding cur4
    by (simp add: sample_platform_def current_credits_def MAX_CREDITS_PER_SEMESTER_def)
  have tc4: "\<not> time_conflict_loop (current_enrollments sample_platform sample_db ''S004'' ?s5) ?s5"
    unfolding cur4 by simp
  from cur5 have "(5, ENROLLED) \<in> (\<lambda>e. (section_id e, status e))
      ` set (current_enrollments sample_platform sample_db ''S005'' ?s5)"
    by (simp flip: set_map)
  then have held: "\<exists>e \<in> set (current_enrollments sample_platform sample_db ''S005'' ?s5).
      section_id e = 5 \<and> status e = ENROLLED"
    by auto
  have none: "\<forall>e \<in> set (current_enrollments sample_platform sample_db ''S004'' ?s5).
      section_id e \<noteq> 5"
    unfolding cur4 by simp
  from already_enrolled_error [OF sample_section_5 seat cr5 tc5] held
  have a: "validate_enrollment_eligibility sample_platform sample_db ''S005'' 5 =
      (False, [''Already enrolled in this section''])"
    by blast
  from already_enrolled_error [OF sample_section_5 seat cr4 tc4] none
  have b: "validate_enrollment_eligibility sample_platform sample_db ''S004'' 5 \<noteq>
      (False, [''Already enrolled in this section''])"
    by blast
  from a b show ?thesis by blast
qed

text \<open>
  Without the proviso the claim fails: S005 holds an Enrolled row for section 4, but
  section 4 is full and the check reports that instead.
\<close>

theorem already_enrolled_counterexample:
  "map_option (map section_id \<circ> current_enrollments sample_platform sample_db ''S005'')
     (get_section_by_id sample_db 4) = Some [4, 5]
   \<and> map_option (map status \<circ> current_enrollments sample_platform sample_db ''S005'')
     (get_section_by_id sample_db 4) = Some [ENROLLED, ENROLLED]
   \<and> validate_enrollment_eligibility sample_platform sample_db ''S005'' 4 =
       (False, [''Section is full''])"
  by (simp add: validate_enrollment_eligibility_def sample_section_4)
     (simp add: sample_defs query_defs List.map_filter_simps)

text \<open>
  A row that is not Enrolled is treated differently from what the sibling checks do:
  the credit sum and the time-conflict loop look at Enrolled rows only, the last loop
  compares the section alone. S003's only row for section 2 is Dropped, and the check
  still answers "Already enrolled in this section".
\<close>

lemma dropped_row_reported_as_enrolled:
  "map_option (map (\<lambda>e. (section_id e, status e))
        \<circ> current_enrollments sample_platform sample_db ''S003'')
       (get_section_by_id sample_db 2) = Some [(2, DROPPED)]
   \<and> validate_enrollment_eligibility sample_platform sample_db ''S003'' 2 =
       (False, [''Already enrolled in this section''])"
  by (simp add: validate_enrollment_eligibility_def sample_section_2)
     (simp add: sample_defs query_defs List.map_filter_simps MAX_CREDITS_PER_SEMESTER_def
        MIN_CREDITS_PER_SEMESTER_def)

end
